theory Spec2Isabelle
  imports Main
begin

section \<open>Strings and formatting\<close>

text \<open>
  Go strings are byte sequences and are modelled as \<open>string\<close> (a list of \<open>char\<close>).
  \<open>strings.Join\<close> puts the separator between consecutive elements.
\<close>

fun Join :: "string list \<Rightarrow> string \<Rightarrow> string" where
  "Join [] sep = []"
| "Join [x] sep = x"
| "Join (x # y # ys) sep = x @ sep @ Join (y # ys) sep"

text \<open>
  \<open>fmt.Sprintf("%d", n)\<close>: the decimal digits of \<open>n\<close>, most significant first, with a
  leading minus sign for a negative number.
\<close>

definition digit :: "nat \<Rightarrow> char" where
  "digit n = ''0123456789'' ! (n mod 10)"

fun digits :: "nat \<Rightarrow> string" where
  "digits n = (if n < 10 then [digit n] else digits (n div 10) @ [digit (n mod 10)])"

declare digits.simps [simp del]

definition itoa :: "int \<Rightarrow> string" where
  "itoa i = (if i < 0 then CHR ''-'' # digits (nat (- i)) else digits (nat i))"

text \<open>
  After the format is consumed, \<open>fmt.Sprintf\<close> reports the operands no verb has used:
  \<open>%!(EXTRA string=a, string=b)\<close>. All operands here are strings.
\<close>

definition extraArgs :: "string list \<Rightarrow> string" where
  "extraArgs a = (if a = [] then [] else
     ''%!(EXTRA '' @ Join (map (\<lambda>x. ''string='' @ x) a) '', '' @ '')'')"

text \<open>
  \<open>fmt.Sprintf(format, a...)\<close> for string operands, on the formats whose verbs are
  \<open>%s\<close> and \<open>%%\<close> only. Ordinary bytes are copied; \<open>%%\<close> writes a percent sign and
  uses no operand; \<open>%s\<close> writes the next operand, or \<open>%!s(MISSING)\<close> when none is
  left; a percent sign that ends the format writes \<open>%!(NOVERB)\<close>. The result is \<open>None\<close>
  on a format with anything else after a percent sign (another verb, a flag, a width, an
  argument index).
\<close>

fun SprintfS :: "string \<Rightarrow> string list \<Rightarrow> string option" where
  "SprintfS [] a = Some (extraArgs a)"
| "SprintfS [c] a =
     (if c = CHR ''%'' then Some (''%!(NOVERB)'' @ extraArgs a)
      else map_option ((@) [c]) (SprintfS [] a))"
| "SprintfS (c # verb # rest) a =
     (if c \<noteq> CHR ''%'' then map_option ((@) [c]) (SprintfS (verb # rest) a)
      else if verb = CHR ''%'' then map_option ((@) ''%'') (SprintfS rest a)
      else if verb = CHR ''s'' then
        (case a of
           [] \<Rightarrow> map_option ((@) ''%!s(MISSING)'') (SprintfS rest a)
         | x # a' \<Rightarrow> map_option ((@) x) (SprintfS rest a'))
      else None)"

text \<open>
  \<open>fmt.Sprintf\<close> on every format: the parameter \<open>other\<close> stands for its result on
  the formats \<open>SprintfS\<close> leaves out. Everything proved below holds for every \<open>other\<close>.
\<close>

definition Sprintf ::
  "(string \<Rightarrow> string list \<Rightarrow> string) \<Rightarrow> string \<Rightarrow> string list \<Rightarrow> string" where
  "Sprintf other format a =
     (case SprintfS format a of Some s \<Rightarrow> s | None \<Rightarrow> other format a)"

text \<open>
  The run-time panic of the builder: the index expression \<open>values[i]\<close> beyond the slice.
\<close>

datatype qb_error = IndexOutOfRange

section \<open>The query builder\<close>

text \<open>
  The struct \<open>QueryBuilder\<close>: the text written so far, the bound argument values and the
  number of the next placeholder. The argument values are opaque to the builder
  (\<open>[]interface{}\<close>), hence the type parameter. \<open>paramIndex\<close> is a Go \<open>int\<close>; it is one
  more than the length of a slice, so it stays far below the wrap-around of a machine
  integer and is modelled as an unbounded \<open>int\<close>.
\<close>

record 'v QueryBuilder =
  query :: string
  args :: "'v list"
  paramIndex :: int

definition NewQueryBuilder :: "'v QueryBuilder" where
  "NewQueryBuilder = \<lparr>query = [], args = [], paramIndex = 1\<rparr>"

definition Reset :: "'v QueryBuilder \<Rightarrow> 'v QueryBuilder" where
  "Reset qb = qb\<lparr>query := [], args := [], paramIndex := 1\<rparr>"

text \<open>\<open>AddParam\<close> returns the placeholder and the updated builder.\<close>

definition AddParam :: "'v \<Rightarrow> 'v QueryBuilder \<Rightarrow> string \<times> 'v QueryBuilder" where
  "AddParam v qb =
     (''$'' @ itoa (paramIndex qb),
      qb\<lparr>args := args qb @ [v], paramIndex := paramIndex qb + 1\<rparr>)"

definition Write :: "string \<Rightarrow> 'v QueryBuilder \<Rightarrow> 'v QueryBuilder" where
  "Write s qb = qb\<lparr>query := query qb @ s\<rparr>"

text \<open>
  The loop \<open>for i, arg := range args { placeholders[i] = qb.AddParam(arg) }\<close> of
  \<open>WriteWithParams\<close> and \<open>WriteInsert\<close>.
\<close>

fun addParams :: "'v list \<Rightarrow> 'v QueryBuilder \<Rightarrow> string list \<times> 'v QueryBuilder" where
  "addParams [] qb = ([], qb)"
| "addParams (v # vs) qb =
     (let (p, qb1) = AddParam v qb;
          (ps, qb2) = addParams vs qb1
      in (p # ps, qb2))"

definition WriteWithParams ::
  "(string \<Rightarrow> string list \<Rightarrow> string) \<Rightarrow> string \<Rightarrow> 'v list \<Rightarrow> 'v QueryBuilder \<Rightarrow>
     'v QueryBuilder" where
  "WriteWithParams other format as qb =
     (let (placeholders, qb1) = addParams as qb
      in Write (Sprintf other format placeholders) qb1)"

definition WriteSelect :: "string list \<Rightarrow> 'v QueryBuilder \<Rightarrow> 'v QueryBuilder" where
  "WriteSelect columns qb =
     (let qb1 = Write ''SELECT '' qb
      in if length columns = 0 then Write ''*'' qb1 else Write (Join columns '', '') qb1)"

definition WriteFrom :: "string \<Rightarrow> 'v QueryBuilder \<Rightarrow> 'v QueryBuilder" where
  "WriteFrom table qb = Write table (Write '' FROM '' qb)"

definition WriteWhere ::
  "(string \<Rightarrow> string list \<Rightarrow> string) \<Rightarrow> string \<Rightarrow> 'v list \<Rightarrow> 'v QueryBuilder \<Rightarrow>
     'v QueryBuilder" where
  "WriteWhere other condition as qb = WriteWithParams other condition as (Write '' WHERE '' qb)"

definition WriteAnd ::
  "(string \<Rightarrow> string list \<Rightarrow> string) \<Rightarrow> string \<Rightarrow> 'v list \<Rightarrow> 'v QueryBuilder \<Rightarrow>
     'v QueryBuilder" where
  "WriteAnd other condition as qb = WriteWithParams other condition as (Write '' AND '' qb)"

definition WriteOr ::
  "(string \<Rightarrow> string list \<Rightarrow> string) \<Rightarrow> string \<Rightarrow> 'v list \<Rightarrow> 'v QueryBuilder \<Rightarrow>
     'v QueryBuilder" where
  "WriteOr other condition as qb = WriteWithParams other condition as (Write '' OR '' qb)"

definition WriteOrderBy :: "string list \<Rightarrow> 'v QueryBuilder \<Rightarrow> 'v QueryBuilder" where
  "WriteOrderBy columns qb =
     (if length columns > 0 then Write (Join columns '', '') (Write '' ORDER BY '' qb) else qb)"

definition WriteLimit :: "int \<Rightarrow> 'v QueryBuilder \<Rightarrow> 'v QueryBuilder" where
  "WriteLimit limit qb = (if limit > 0 then Write ('' LIMIT '' @ itoa limit) qb else qb)"

definition WriteOffset :: "int \<Rightarrow> 'v QueryBuilder \<Rightarrow> 'v QueryBuilder" where
  "WriteOffset offset qb = (if offset > 0 then Write ('' OFFSET '' @ itoa offset) qb else qb)"

text \<open>
  The calls of \<open>fmt.Sprintf\<close> with a constant format (\<open>"INSERT INTO %s ("\<close>,
  \<open>"UPDATE %s SET "\<close>, \<open>"%s = %s"\<close>, \<open>"DELETE FROM %s"\<close>) are written as the
  concatenation they compute.
\<close>

definition WriteInsert ::
  "string \<Rightarrow> string list \<Rightarrow> 'v list \<Rightarrow> 'v QueryBuilder \<Rightarrow> 'v QueryBuilder" where
  "WriteInsert table columns vals qb =
     (let qb1 = Write (''INSERT INTO '' @ table @ '' ('') qb;
          qb2 = Write (Join columns '', '') qb1;
          qb3 = Write '') VALUES ('' qb2;
          (placeholders, qb4) = addParams vals qb3;
          qb5 = Write (Join placeholders '', '') qb4
      in Write '')'' qb5)"

text \<open>
  The loop of \<open>WriteUpdate\<close>, from index \<open>i\<close>. The separator is written first; then the
  operands \<open>columns[i]\<close> and \<open>values[i]\<close> are read, and \<open>values[i]\<close> panics when
  \<open>values\<close> is shorter than \<open>columns\<close>.
\<close>

function WriteUpdate_loop ::
  "nat \<Rightarrow> string list \<Rightarrow> 'v list \<Rightarrow> 'v QueryBuilder \<Rightarrow> qb_error + 'v QueryBuilder" where
  "WriteUpdate_loop i columns vals qb =
     (if i < length columns then
        (let qb1 = (if i > 0 then Write '', '' qb else qb)
         in if i < length vals then
              (let (p, qb2) = AddParam (vals ! i) qb1
               in WriteUpdate_loop (i + 1) columns vals (Write (columns ! i @ '' = '' @ p) qb2))
            else Inl IndexOutOfRange)
      else Inr qb)"
  by pat_completeness auto
termination
  by (relation "measure (\<lambda>(i, columns, vals, qb). length columns - i)") auto

declare WriteUpdate_loop.simps [simp del]

definition WriteUpdate ::
  "string \<Rightarrow> string list \<Rightarrow> 'v list \<Rightarrow> 'v QueryBuilder \<Rightarrow> qb_error + 'v QueryBuilder" where
  "WriteUpdate table columns vals qb =
     WriteUpdate_loop 0 columns vals (Write (''UPDATE '' @ table @ '' SET '') qb)"

definition WriteDelete :: "string \<Rightarrow> 'v QueryBuilder \<Rightarrow> 'v QueryBuilder" where
  "WriteDelete table qb = Write (''DELETE FROM '' @ table) qb"

definition WriteReturning :: "string list \<Rightarrow> 'v QueryBuilder \<Rightarrow> 'v QueryBuilder" where
  "WriteReturning columns qb =
     (if length columns > 0 then Write (Join columns '', '') (Write '' RETURNING '' qb) else qb)"

definition Build :: "'v QueryBuilder \<Rightarrow> string \<times> 'v list" where
  "Build qb = (query qb, args qb)"

text \<open>Sequencing of builder calls that may panic: the first panic ends the chain.\<close>

definition andThen ::
  "qb_error + 'a \<Rightarrow> ('a \<Rightarrow> qb_error + 'b) \<Rightarrow> qb_error + 'b" where
  "andThen r f = (case r of Inl e \<Rightarrow> Inl e | Inr x \<Rightarrow> f x)"

section \<open>Values, struct fields and objects\<close>

text \<open>
  The values an \<open>interface{}\<close> holds are restricted to the kinds \<open>int\<close>, \<open>int64\<close>,
  \<open>string\<close> and \<open>bool\<close>; \<open>None\<close> is the nil interface. No arithmetic is done on
  the numbers, which are kept as unbounded integers (a Go \<open>int\<close> is one of them in the
  64-bit range).
\<close>

datatype gtype = TInt | TInt64 | TString | TBool

datatype gvalue = VInt int | VInt64 int | VStr string | VBool bool

type_synonym iface = "gvalue option"

fun typeOf :: "gvalue \<Rightarrow> gtype" where
  "typeOf (VInt n) = TInt"
| "typeOf (VInt64 n) = TInt64"
| "typeOf (VStr s) = TString"
| "typeOf (VBool b) = TBool"

text \<open>\<open>reflect.Value.IsZero\<close>: the value is the zero value of its type.\<close>

fun IsZero :: "gvalue \<Rightarrow> bool" where
  "IsZero (VInt n) = (n = 0)"
| "IsZero (VInt64 n) = (n = 0)"
| "IsZero (VStr s) = (s = [])"
| "IsZero (VBool b) = (\<not> b)"

text \<open>
  \<open>reflect.Type.ConvertibleTo\<close> on these kinds: the integer types convert to each other
  and to \<open>string\<close>; nothing else converts between distinct types.
\<close>

fun ConvertibleTo :: "gtype \<Rightarrow> gtype \<Rightarrow> bool" where
  "ConvertibleTo TInt t = (t = TInt \<or> t = TInt64 \<or> t = TString)"
| "ConvertibleTo TInt64 t = (t = TInt \<or> t = TInt64 \<or> t = TString)"
| "ConvertibleTo TString t = (t = TString)"
| "ConvertibleTo TBool t = (t = TBool)"

text \<open>
  The conversion of an integer to a string yields the UTF-8 encoding of the code point,
  and of U+FFFD for a number that is no valid code point.
\<close>

definition encodeRune :: "int \<Rightarrow> string" where
  "encodeRune r =
     (let n = nat r in
      if r < 0 \<or> r > 0x10FFFF \<or> (0xD800 \<le> r \<and> r \<le> 0xDFFF) then
        [char_of (0xEF :: nat), char_of (0xBF :: nat), char_of (0xBD :: nat)]
      else if n < 0x80 then [char_of n]
      else if n < 0x800 then [char_of (0xC0 + n div 64), char_of (0x80 + n mod 64)]
      else if n < 0x10000 then
        [char_of (0xE0 + n div 4096), char_of (0x80 + (n div 64) mod 64),
         char_of (0x80 + n mod 64)]
      else
        [char_of (0xF0 + n div 262144), char_of (0x80 + (n div 4096) mod 64),
         char_of (0x80 + (n div 64) mod 64), char_of (0x80 + n mod 64)])"

text \<open>
  \<open>reflect.Value.Convert\<close>, called only when \<open>ConvertibleTo\<close> holds (a 64-bit platform:
  \<open>int\<close> and \<open>int64\<close> have the same range).
\<close>

fun Convert :: "gvalue \<Rightarrow> gtype \<Rightarrow> gvalue" where
  "Convert (VInt n) TInt64 = VInt64 n"
| "Convert (VInt64 n) TInt = VInt n"
| "Convert (VInt n) TString = VStr (encodeRune n)"
| "Convert (VInt64 n) TString = VStr (encodeRune n)"
| "Convert v t = v"

text \<open>
  A struct field as reflection shows it: its identifier, the value of its \<open>db\<close> tag
  (\<open>Tag.Get("db")\<close>, empty when there is none) and its current value. The type of the
  field is the type of its value. Identifiers and tags are taken over ASCII.
\<close>

record StructField =
  Name :: string
  Tag :: string
  Val :: gvalue

definition isUpper :: "char \<Rightarrow> bool" where
  "isUpper c = (65 \<le> (of_char c :: nat) \<and> (of_char c :: nat) \<le> 90)"

definition toLowerChar :: "char \<Rightarrow> char" where
  "toLowerChar c = (if isUpper c then char_of ((of_char c :: nat) + 32) else c)"

definition ToLower :: "string \<Rightarrow> string" where
  "ToLower s = map toLowerChar s"

text \<open>A field is exported when its identifier starts with an upper-case letter.\<close>

definition IsExported :: "StructField \<Rightarrow> bool" where
  "IsExported f = (case Name f of [] \<Rightarrow> False | c # cs \<Rightarrow> isUpper c)"

text \<open>
  The value of a field read through reflection can be turned into an interface, and the
  field of an addressable struct can be set, exactly when the field is exported.
\<close>

definition CanInterface :: "StructField \<Rightarrow> bool" where
  "CanInterface f = IsExported f"

definition CanSet :: "StructField \<Rightarrow> bool" where
  "CanSet f = IsExported f"

text \<open>
  What an \<open>interface{}\<close> argument can be: nil, a struct, a pointer to a struct, a nil
  pointer, some other value, or a pointer to something that is no struct.
\<close>

datatype gobj =
  ONil
| OStruct "StructField list"
| OPtr "StructField list"
| ONilPtr
| OOther
| OPtrOther

text \<open>
  The errors of the reflection helpers, by message:
  \<open>ErrNilObject\<close> "objeto nao pode ser nil",
  \<open>ErrNotStruct\<close> "objeto deve ser uma estrutura ou um ponteiro para uma estrutura",
  \<open>ErrNotPointer\<close> "objeto deve ser um ponteiro nao-nil",
  \<open>ErrNotPtrToStruct\<close> "objeto deve ser um ponteiro para uma estrutura",
  \<open>ErrCannotSet\<close> "campo nao pode ser definido",
  \<open>ErrIncompatibleType\<close> "tipo de valor incompativel com o tipo do campo",
  \<open>ErrFieldNotFound\<close> "campo nao encontrado",
  \<open>ErrNoPrimaryKey\<close> "chave primaria nao encontrada".
  \<open>ReflectPanic\<close> is the panic of \<open>reflect\<close> on the zero \<open>reflect.Value\<close>.
\<close>

datatype refl_error =
  ErrNilObject
| ErrNotStruct
| ErrNotPointer
| ErrNotPtrToStruct
| ErrCannotSet
| ErrIncompatibleType
| ErrFieldNotFound
| ErrNoPrimaryKey
| ReflectPanic

section \<open>Reflection helpers\<close>

text \<open>
  The loop of \<open>GetStructFields\<close> over the fields in declaration order, filling the map
  \<open>fields\<close> (here \<open>fieldsMap\<close>). A later field with the same column name overwrites an earlier one.
\<close>

fun GetStructFields_loop ::
  "StructField list \<Rightarrow> (string \<rightharpoonup> iface) \<Rightarrow> (string \<rightharpoonup> iface)" where
  "GetStructFields_loop [] fieldsMap = fieldsMap"
| "GetStructFields_loop (f # fs) fieldsMap =
     (if \<not> IsExported f then GetStructFields_loop fs fieldsMap
      else if Tag f = ''-'' then GetStructFields_loop fs fieldsMap
      else
        (let columnName = (if Tag f = [] then ToLower (Name f) else Tag f);
             fieldValue = (if CanInterface f then Some (Val f) else None)
         in GetStructFields_loop fs (fieldsMap(columnName \<mapsto> fieldValue))))"

fun GetStructFields :: "gobj \<Rightarrow> refl_error + (string \<rightharpoonup> iface)" where
  "GetStructFields ONil = Inl ErrNilObject"
| "GetStructFields (OStruct fs) = Inr (GetStructFields_loop fs Map.empty)"
| "GetStructFields (OPtr fs) = Inr (GetStructFields_loop fs Map.empty)"
| "GetStructFields ONilPtr = Inl ErrNotStruct"
| "GetStructFields OOther = Inl ErrNotStruct"
| "GetStructFields OPtrOther = Inl ErrNotStruct"

text \<open>
  The loop of \<open>SetStructField\<close>: the first field that matches decides. The result is the
  struct after the call and the error returned.
\<close>

fun SetStructField_loop ::
  "StructField list \<Rightarrow> string \<Rightarrow> iface \<Rightarrow> StructField list \<times> refl_error option" where
  "SetStructField_loop [] fieldName v = ([], Some ErrFieldNotFound)"
| "SetStructField_loop (f # fs) fieldName v =
     (if Tag f = fieldName \<or> (Tag f = [] \<and> ToLower (Name f) = fieldName) then
        (if \<not> CanSet f then (f # fs, Some ErrCannotSet)
         else
           (case v of
              None \<Rightarrow> (f # fs, Some ReflectPanic)
            | Some fieldVal \<Rightarrow>
                if typeOf (Val f) \<noteq> typeOf fieldVal then
                  (if ConvertibleTo (typeOf fieldVal) (typeOf (Val f)) then
                     (f\<lparr>Val := Convert fieldVal (typeOf (Val f))\<rparr> # fs, None)
                   else (f # fs, Some ErrIncompatibleType))
                else (f\<lparr>Val := fieldVal\<rparr> # fs, None)))
      else
        (let (fs', e) = SetStructField_loop fs fieldName v in (f # fs', e)))"

fun SetStructField :: "gobj \<Rightarrow> string \<Rightarrow> iface \<Rightarrow> gobj \<times> refl_error option" where
  "SetStructField ONil fieldName v = (ONil, Some ErrNilObject)"
| "SetStructField (OStruct fs) fieldName v = (OStruct fs, Some ErrNotPointer)"
| "SetStructField OOther fieldName v = (OOther, Some ErrNotPointer)"
| "SetStructField ONilPtr fieldName v = (ONilPtr, Some ErrNotPointer)"
| "SetStructField OPtrOther fieldName v = (OPtrOther, Some ErrNotPtrToStruct)"
| "SetStructField (OPtr fs) fieldName v =
     (let (fs', e) = SetStructField_loop fs fieldName v in (OPtr fs', e))"

text \<open>\<open>strings.Contains\<close> and \<open>strings.Split\<close> with a one-byte separator.\<close>

fun HasPrefix :: "string \<Rightarrow> string \<Rightarrow> bool" where
  "HasPrefix s [] = True"
| "HasPrefix [] (p # ps) = False"
| "HasPrefix (c # cs) (p # ps) = (c = p \<and> HasPrefix cs ps)"

fun Contains :: "string \<Rightarrow> string \<Rightarrow> bool" where
  "Contains [] substr = HasPrefix [] substr"
| "Contains (c # cs) substr = (HasPrefix (c # cs) substr \<or> Contains cs substr)"

fun Split :: "string \<Rightarrow> char \<Rightarrow> string list" where
  "Split [] sep = [[]]"
| "Split (c # cs) sep =
     (if c = sep then [] # Split cs sep
      else (case Split cs sep of [] \<Rightarrow> [[c]] | p # ps \<Rightarrow> (c # p) # ps))"

text \<open>The first loop of \<open>GetPrimaryKeyField\<close>: the first field tagged as primary.\<close>

fun primaryTagged :: "StructField list \<Rightarrow> (string \<times> iface) option" where
  "primaryTagged [] = None"
| "primaryTagged (f # fs) =
     (if Contains (Tag f) '',primary'' then
        (let columnName = hd (Split (Tag f) (CHR '',''));
             columnName = (if columnName = [] then ToLower (Name f) else columnName);
             fieldValue = (if CanInterface f then Some (Val f) else None)
         in Some (columnName, fieldValue))
      else primaryTagged fs)"

text \<open>The second loop: the first field whose identifier is "id" in any case.\<close>

fun namedId :: "StructField list \<Rightarrow> (string \<times> iface) option" where
  "namedId [] = None"
| "namedId (f # fs) =
     (if ToLower (Name f) = ''id'' then
        (let columnName = (if Tag f = [] \<or> Tag f = ''-'' then ''id'' else Tag f);
             fieldValue = (if CanInterface f then Some (Val f) else None)
         in Some (columnName, fieldValue))
      else namedId fs)"

definition GetPrimaryKeyField_struct ::
  "StructField list \<Rightarrow> refl_error + (string \<times> iface)" where
  "GetPrimaryKeyField_struct fs =
     (case primaryTagged fs of
        Some r \<Rightarrow> Inr r
      | None \<Rightarrow> (case namedId fs of Some r \<Rightarrow> Inr r | None \<Rightarrow> Inl ErrNoPrimaryKey))"

fun GetPrimaryKeyField :: "gobj \<Rightarrow> refl_error + (string \<times> iface)" where
  "GetPrimaryKeyField ONil = Inl ErrNilObject"
| "GetPrimaryKeyField (OStruct fs) = GetPrimaryKeyField_struct fs"
| "GetPrimaryKeyField (OPtr fs) = GetPrimaryKeyField_struct fs"
| "GetPrimaryKeyField ONilPtr = Inl ErrNotStruct"
| "GetPrimaryKeyField OOther = Inl ErrNotStruct"
| "GetPrimaryKeyField OPtrOther = Inl ErrNotStruct"

section \<open>The PostgreSQL operations\<close>

text \<open>
  The database is outside the program. A connection answers the two calls the operations
  make: \<open>QueryRowContext(...).Scan(&generatedID)\<close>, which gives an error or the scanned
  \<open>int\<close>, and \<open>ExecContext\<close>, which gives an error or a result whose \<open>RowsAffected()\<close>
  is an error or a count. An error of the driver is a \<open>pq.Error\<close> with its code, or
  anything else.
\<close>

datatype db_error = PqError string | OtherDbError

record Backend =
  QueryRowScan :: "string \<Rightarrow> iface list \<Rightarrow> db_error + int"
  Exec :: "string \<Rightarrow> iface list \<Rightarrow> db_error + (db_error + int)"

text \<open>The statement an operation hands to the connection.\<close>

datatype stmt = QueryRowStmt string "iface list" | ExecStmt string "iface list"

text \<open>
  The errors of the operations, by message prefix:
  \<open>ErrNoConnection\<close> "connection not established",
  \<open>ErrStructFields\<close> "error retrieving struct fields",
  \<open>ErrRecordExists\<close> "record already exists",
  \<open>ErrInsert\<close> "error inserting record",
  \<open>ErrSetPrimaryKey\<close> "error setting primary key value",
  \<open>ErrUpdate\<close> "error updating record",
  \<open>ErrDelete\<close> "error deleting record",
  \<open>ErrAffectedRows\<close> "error retrieving affected rows count",
  \<open>ErrNoRecordsUpdated\<close> "no records were updated",
  \<open>ErrNoRecordsDeleted\<close> "no records were deleted".
  \<open>ZeroValuePanic\<close> is the panic of \<open>reflect.ValueOf(nil).IsZero()\<close>, and
  \<open>BuilderPanic\<close> carries a panic of the query builder.
\<close>

datatype orm_error =
  ErrNoConnection
| ErrStructFields refl_error
| ErrRecordExists db_error
| ErrInsert db_error
| ErrSetPrimaryKey refl_error
| ErrUpdate db_error
| ErrDelete db_error
| ErrAffectedRows db_error
| ErrNoRecordsUpdated
| ErrNoRecordsDeleted
| ZeroValuePanic
| BuilderPanic qb_error

text \<open>
  A \<open>core.Model\<close>: the object behind the interface, what \<open>TableName()\<close> returns and,
  when the dynamic type also implements \<open>core.ModelWithPrimaryKey\<close>, what \<open>PrimaryKey()\<close>
  and \<open>PrimaryKeyValue()\<close> return.
\<close>

record Model =
  Obj :: gobj
  TableName :: string
  PK :: "(string \<times> iface) option"

record ModelWithPrimaryKey =
  PObj :: gobj
  PTableName :: string
  PrimaryKey :: string
  PrimaryKeyValue :: iface

text \<open>
  The outcome of an operation: the error returned, the object after the call and the
  statement sent to the connection, if one was sent.
\<close>

record orm_result =
  Err :: "orm_error option"
  ObjAfter :: gobj
  Sent :: "stmt option"

text \<open>
  Go visits the keys of a map in an unspecified order. The operations take the order of
  the visit as the list \<open>order\<close>; a key of the list that is not in the map is passed
  over. The loop of \<open>Create\<close> leaves out the primary key column when its value is zero.
\<close>

fun Create_filter ::
  "string list \<Rightarrow> (string \<rightharpoonup> iface) \<Rightarrow> string \<Rightarrow> iface \<Rightarrow>
     orm_error + (string list \<times> iface list)" where
  "Create_filter [] fm primaryKey primaryKeyValue = Inr ([], [])"
| "Create_filter (column # rest) fm primaryKey primaryKeyValue =
     (case fm column of
        None \<Rightarrow> Create_filter rest fm primaryKey primaryKeyValue
      | Some v \<Rightarrow>
          (let keep =
             (case Create_filter rest fm primaryKey primaryKeyValue of
                Inl e \<Rightarrow> Inl e
              | Inr (columns, vals) \<Rightarrow> Inr (column # columns, v # vals))
           in if column = primaryKey then
                (case primaryKeyValue of
                   None \<Rightarrow> Inl ZeroValuePanic
                 | Some x \<Rightarrow>
                     if IsZero x then Create_filter rest fm primaryKey primaryKeyValue
                     else keep)
              else keep))"

definition Create_dbError :: "db_error \<Rightarrow> orm_error" where
  "Create_dbError e = (if e = PqError ''23505'' then ErrRecordExists e else ErrInsert e)"

definition Create :: "Backend option \<Rightarrow> Model \<Rightarrow> string list \<Rightarrow> orm_result" where
  "Create db model order =
     (case db of
        None \<Rightarrow> \<lparr>Err = Some ErrNoConnection, ObjAfter = Obj model, Sent = None\<rparr>
      | Some conn \<Rightarrow>
          (case GetStructFields (Obj model) of
             Inl e \<Rightarrow> \<lparr>Err = Some (ErrStructFields e), ObjAfter = Obj model, Sent = None\<rparr>
           | Inr fm \<Rightarrow>
               (let (primaryKey, primaryKeyValue) =
                      (case PK model of Some kv \<Rightarrow> kv | None \<Rightarrow> ([], None))
                in case Create_filter order fm primaryKey primaryKeyValue of
                     Inl e \<Rightarrow> \<lparr>Err = Some e, ObjAfter = Obj model, Sent = None\<rparr>
                   | Inr (columns, vals) \<Rightarrow>
                       (let qb = WriteInsert (TableName model) columns vals NewQueryBuilder;
                            qb = (if primaryKey \<noteq> [] then WriteReturning [primaryKey] qb
                                  else qb);
                            (text, params) = Build qb
                        in if primaryKey \<noteq> [] then
                             (case QueryRowScan conn text params of
                                Inl e \<Rightarrow>
                                  \<lparr>Err = Some (Create_dbError e), ObjAfter = Obj model,
                                   Sent = Some (QueryRowStmt text params)\<rparr>
                              | Inr generatedID \<Rightarrow>
                                  (let (obj', e) =
                                     SetStructField (Obj model) primaryKey
                                       (Some (VInt generatedID))
                                   in \<lparr>Err = map_option ErrSetPrimaryKey e, ObjAfter = obj',
                                       Sent = Some (QueryRowStmt text params)\<rparr>))
                           else
                             (case Exec conn text params of
                                Inl e \<Rightarrow>
                                  \<lparr>Err = Some (Create_dbError e), ObjAfter = Obj model,
                                   Sent = Some (ExecStmt text params)\<rparr>
                              | Inr res \<Rightarrow>
                                  \<lparr>Err = None, ObjAfter = Obj model,
                                   Sent = Some (ExecStmt text params)\<rparr>)))))"

text \<open>The loop of \<open>Update\<close> that lists the columns and values left in the map.\<close>

fun Update_collect ::
  "string list \<Rightarrow> (string \<rightharpoonup> iface) \<Rightarrow> string list \<times> iface list" where
  "Update_collect [] fm = ([], [])"
| "Update_collect (column # rest) fm =
     (case fm column of
        None \<Rightarrow> Update_collect rest fm
      | Some v \<Rightarrow> (let (columns, vals) = Update_collect rest fm in (column # columns, v # vals)))"

text \<open>
  The check of the affected rows that ends \<open>Update\<close> and \<open>Delete\<close>, with the errors of
  the operation: a failed execution, a failed count, no row.
\<close>

definition checkExec ::
  "Backend \<Rightarrow> string \<Rightarrow> iface list \<Rightarrow> (db_error \<Rightarrow> orm_error) \<Rightarrow> orm_error \<Rightarrow>
     orm_error option" where
  "checkExec conn text params execFailed noRows =
     (case Exec conn text params of
        Inl e \<Rightarrow> Some (execFailed e)
      | Inr res \<Rightarrow>
          (case res of
             Inl e \<Rightarrow> Some (ErrAffectedRows e)
           | Inr rowsAffected \<Rightarrow> if rowsAffected = 0 then Some noRows else None))"

text \<open>
  In \<open>qb.WriteUpdate(...).WriteWhere(fmt.Sprintf("%s = %s", primaryKey,
  qb.AddParam(primaryKeyValue)))\<close> the calls run in lexical order: \<open>WriteUpdate\<close>, then
  \<open>AddParam\<close>, then \<open>WriteWhere\<close> with the finished condition and no arguments.
\<close>

definition Update ::
  "(string \<Rightarrow> string list \<Rightarrow> string) \<Rightarrow> Backend option \<Rightarrow> ModelWithPrimaryKey \<Rightarrow>
     string list \<Rightarrow> orm_result" where
  "Update other db model order =
     (case db of
        None \<Rightarrow> \<lparr>Err = Some ErrNoConnection, ObjAfter = PObj model, Sent = None\<rparr>
      | Some conn \<Rightarrow>
          (case GetStructFields (PObj model) of
             Inl e \<Rightarrow> \<lparr>Err = Some (ErrStructFields e), ObjAfter = PObj model, Sent = None\<rparr>
           | Inr fm \<Rightarrow>
               (let primaryKey = PrimaryKey model;
                    primaryKeyValue = PrimaryKeyValue model;
                    (columns, vals) = Update_collect order (fm(primaryKey := None));
                    built =
                      andThen (WriteUpdate (PTableName model) columns vals NewQueryBuilder)
                        (\<lambda>qb1. let (p, qb2) = AddParam primaryKeyValue qb1
                                in Inr (WriteWhere other (primaryKey @ '' = '' @ p) [] qb2))
                in case built of
                     Inl e \<Rightarrow> \<lparr>Err = Some (BuilderPanic e), ObjAfter = PObj model, Sent = None\<rparr>
                   | Inr qb \<Rightarrow>
                       (let (text, params) = Build qb
                        in \<lparr>Err = checkExec conn text params ErrUpdate ErrNoRecordsUpdated,
                            ObjAfter = PObj model,
                            Sent = Some (ExecStmt text params)\<rparr>))))"

definition Delete ::
  "(string \<Rightarrow> string list \<Rightarrow> string) \<Rightarrow> Backend option \<Rightarrow> ModelWithPrimaryKey \<Rightarrow>
     orm_result" where
  "Delete other db model =
     (case db of
        None \<Rightarrow> \<lparr>Err = Some ErrNoConnection, ObjAfter = PObj model, Sent = None\<rparr>
      | Some conn \<Rightarrow>
          (let qb1 = WriteDelete (PTableName model) NewQueryBuilder;
               (p, qb2) = AddParam (PrimaryKeyValue model) qb1;
               qb = WriteWhere other (PrimaryKey model @ '' = '' @ p) [] qb2;
               (text, params) = Build qb
           in \<lparr>Err = checkExec conn text params ErrDelete ErrNoRecordsDeleted,
               ObjAfter = PObj model,
               Sent = Some (ExecStmt text params)\<rparr>))"

section \<open>Sequences of builder calls\<close>

text \<open>
  The calls a client can make on a builder between two resets, as data, so that
  properties of every sequence of calls can be stated. \<open>perform\<close> makes one call,
  \<open>performAll\<close> a sequence of them, and \<open>added\<close> lists the parameters a call binds.
\<close>

datatype 'v call =
  CAddParam 'v
| CWrite string
| CWriteWithParams string "'v list"
| CWriteSelect "string list"
| CWriteFrom string
| CWriteWhere string "'v list"
| CWriteAnd string "'v list"
| CWriteOr string "'v list"
| CWriteOrderBy "string list"
| CWriteLimit int
| CWriteOffset int
| CWriteInsert string "string list" "'v list"
| CWriteUpdate string "string list" "'v list"
| CWriteDelete string
| CWriteReturning "string list"

fun perform ::
  "(string \<Rightarrow> string list \<Rightarrow> string) \<Rightarrow> 'v call \<Rightarrow> 'v QueryBuilder \<Rightarrow>
     qb_error + 'v QueryBuilder" where
  "perform other (CAddParam v) qb = Inr (snd (AddParam v qb))"
| "perform other (CWrite s) qb = Inr (Write s qb)"
| "perform other (CWriteWithParams format as) qb = Inr (WriteWithParams other format as qb)"
| "perform other (CWriteSelect columns) qb = Inr (WriteSelect columns qb)"
| "perform other (CWriteFrom table) qb = Inr (WriteFrom table qb)"
| "perform other (CWriteWhere condition as) qb = Inr (WriteWhere other condition as qb)"
| "perform other (CWriteAnd condition as) qb = Inr (WriteAnd other condition as qb)"
| "perform other (CWriteOr condition as) qb = Inr (WriteOr other condition as qb)"
| "perform other (CWriteOrderBy columns) qb = Inr (WriteOrderBy columns qb)"
| "perform other (CWriteLimit n) qb = Inr (WriteLimit n qb)"
| "perform other (CWriteOffset n) qb = Inr (WriteOffset n qb)"
| "perform other (CWriteInsert table columns vals) qb = Inr (WriteInsert table columns vals qb)"
| "perform other (CWriteUpdate table columns vals) qb = WriteUpdate table columns vals qb"
| "perform other (CWriteDelete table) qb = Inr (WriteDelete table qb)"
| "perform other (CWriteReturning columns) qb = Inr (WriteReturning columns qb)"

fun performAll ::
  "(string \<Rightarrow> string list \<Rightarrow> string) \<Rightarrow> 'v call list \<Rightarrow> 'v QueryBuilder \<Rightarrow>
     qb_error + 'v QueryBuilder" where
  "performAll other [] qb = Inr qb"
| "performAll other (c # cs) qb = andThen (perform other c qb) (performAll other cs)"

fun added :: "'v call \<Rightarrow> 'v list" where
  "added (CAddParam v) = [v]"
| "added (CWriteWithParams format as) = as"
| "added (CWriteWhere condition as) = as"
| "added (CWriteAnd condition as) = as"
| "added (CWriteOr condition as) = as"
| "added (CWriteInsert table columns vals) = vals"
| "added (CWriteUpdate table columns vals) = take (length columns) vals"
| "added c = []"

section \<open>The struct of the repository's tests\<close>

text \<open>
  \<open>TestStruct\<close> of \<open>reflection_test.go\<close>, with the values \<open>TestGetStructFields\<close> gives
  it: a primary key with the tag \<open>id,primary\<close>, two tagged fields, a field excluded by
  the tag \<open>-\<close>, a field without a tag and a field that is not exported.
\<close>

definition TestStruct :: "StructField list" where
  "TestStruct =
     [\<lparr>Name = ''ID'', Tag = ''id,primary'', Val = VInt 1\<rparr>,
      \<lparr>Name = ''Name'', Tag = ''name'', Val = VStr ''Test Name''\<rparr>,
      \<lparr>Name = ''Email'', Tag = ''email'', Val = VStr ''test@example.com''\<rparr>,
      \<lparr>Name = ''Ignored'', Tag = ''-'', Val = VStr ''This should be ignored''\<rparr>,
      \<lparr>Name = ''NoTag'', Tag = [], Val = VStr ''No tag field''\<rparr>,
      \<lparr>Name = ''unexported'', Tag = [], Val = VStr ''Unexported field''\<rparr>]"

text \<open>
  A model in the style of the documentation, whose key field has the tag \<open>id\<close>
  without an option (\<open>docs/README.md\<close>): \<open>User i\<close> has the primary key \<open>i\<close>. \<open>UserModel\<close> is
  the record as a \<open>core.Model\<close> that implements \<open>core.ModelWithPrimaryKey\<close>, \<open>UserRow\<close>
  the same as an argument of \<open>Update\<close> and \<open>Delete\<close>. \<open>Answering g n\<close> is a connection
  that executes every statement, returns the generated key \<open>g\<close> and counts \<open>n\<close>
  affected rows.
\<close>

definition User :: "int \<Rightarrow> StructField list" where
  "User i =
     [\<lparr>Name = ''ID'', Tag = ''id'', Val = VInt i\<rparr>,
      \<lparr>Name = ''Name'', Tag = ''name'', Val = VStr ''J''\<rparr>]"

definition UserModel :: "int \<Rightarrow> Model" where
  "UserModel i = \<lparr>Obj = OPtr (User i), TableName = ''users'', PK = Some (''id'', Some (VInt i))\<rparr>"

definition UserRow :: "int \<Rightarrow> ModelWithPrimaryKey" where
  "UserRow i =
     \<lparr>PObj = OPtr (User i), PTableName = ''users'', PrimaryKey = ''id'',
      PrimaryKeyValue = Some (VInt i)\<rparr>"

definition Answering :: "int \<Rightarrow> int \<Rightarrow> Backend" where
  "Answering generated affected =
     \<lparr>QueryRowScan = (\<lambda>text params. Inr generated),
      Exec = (\<lambda>text params. Inr (Inr affected))\<rparr>"

section \<open>Properties of the query builder\<close>

lemma Write_simps [simp]:
  "args (Write s qb) = args qb"
  "paramIndex (Write s qb) = paramIndex qb"
  "query (Write s qb) = query qb @ s"
  by (simp_all add: Write_def)

lemma AddParam_simps [simp]:
  "args (snd (AddParam v qb)) = args qb @ [v]"
  "paramIndex (snd (AddParam v qb)) = paramIndex qb + 1"
  "query (snd (AddParam v qb)) = query qb"
  "fst (AddParam v qb) = ''$'' @ itoa (paramIndex qb)"
  by (simp_all add: AddParam_def)

lemma addParams_args [simp]: "args (snd (addParams vs qb)) = args qb @ vs"
  by (induction vs arbitrary: qb) (simp_all add: split_beta)

lemma addParams_paramIndex [simp]:
  "paramIndex (snd (addParams vs qb)) = paramIndex qb + int (length vs)"
  by (induction vs arbitrary: qb) (simp_all add: split_beta)

lemma addParams_query [simp]: "query (snd (addParams vs qb)) = query qb"
  by (induction vs arbitrary: qb) (simp_all add: split_beta)

lemma addParams_fst:
  "fst (addParams vs qb) = map (\<lambda>i. ''$'' @ itoa (paramIndex qb + int i)) [0..<length vs]"
proof (induction vs arbitrary: qb)
  case Nil
  show ?case by simp
next
  case (Cons v vs)
  have "map (\<lambda>i. ''$'' @ itoa (paramIndex qb + int i)) [0..<Suc (length vs)] =
        (''$'' @ itoa (paramIndex qb)) #
          map (\<lambda>i. ''$'' @ itoa (paramIndex qb + 1 + int i)) [0..<length vs]"
    by (simp add: upt_conv_Cons map_Suc_upt [symmetric] del: upt_Suc add: add.assoc)
  then show ?case
    using Cons.IH [of "snd (AddParam v qb)"] by (simp add: split_beta)
qed

lemma WriteWithParams_effect:
  "args (WriteWithParams other format as qb) = args qb @ as \<and>
   paramIndex (WriteWithParams other format as qb) = paramIndex qb + int (length as)"
  by (simp add: WriteWithParams_def split_beta)

lemma WriteUpdate_loop_effect:
  "WriteUpdate_loop i columns vals qb = Inr qb' \<Longrightarrow>
     args qb' = args qb @ drop i (take (length columns) vals) \<and>
     paramIndex qb' = paramIndex qb + int (length (drop i (take (length columns) vals)))"
proof (induction i columns vals qb rule: WriteUpdate_loop.induct)
  case (1 i columns vals qb)
  show ?case
  proof (cases "i < length columns")
    case False
    with "1.prems" show ?thesis by (simp add: WriteUpdate_loop.simps)
  next
    case True
    show ?thesis
    proof (cases "i < length vals")
      case False
      with True "1.prems" show ?thesis by (simp add: WriteUpdate_loop.simps Let_def)
    next
      case inb: True
      define qb1 where "qb1 = (if i > 0 then Write '', '' qb else qb)"
      define qb3 where "qb3 = Write (columns ! i @ '' = '' @ fst (AddParam (vals ! i) qb1))
         (snd (AddParam (vals ! i) qb1))"
      have step: "WriteUpdate_loop i columns vals qb = WriteUpdate_loop (i + 1) columns vals qb3"
        using True inb by (subst WriteUpdate_loop.simps) (simp add: qb1_def qb3_def Let_def split_beta)
      have "WriteUpdate_loop (i + 1) columns vals qb3 = Inr qb'"
        using step "1.prems" by simp
      then have ih: "args qb' = args qb3 @ drop (i + 1) (take (length columns) vals) \<and>
         paramIndex qb' = paramIndex qb3 + int (length (drop (i + 1) (take (length columns) vals)))"
        using "1.IH" [OF True refl inb prod.collapse] by (simp add: qb3_def qb1_def)
      have a3: "args qb3 = args qb @ [vals ! i]" and p3: "paramIndex qb3 = paramIndex qb + 1"
        by (simp_all add: qb3_def qb1_def)
      have "i < length (take (length columns) vals)"
        using True inb by simp
      then have "drop i (take (length columns) vals) =
          take (length columns) vals ! i # drop (Suc i) (take (length columns) vals)"
        by (rule Cons_nth_drop_Suc [symmetric])
      then have d: "drop i (take (length columns) vals) =
          vals ! i # drop (i + 1) (take (length columns) vals)"
        using True by simp
      show ?thesis
        using ih a3 p3 by (simp add: d)
    qed
  qed
qed

lemma WriteUpdate_effect:
  assumes "WriteUpdate table columns vals qb = Inr qb'"
  shows "args qb' = args qb @ take (length columns) vals \<and>
         paramIndex qb' = paramIndex qb + int (length (take (length columns) vals))"
  using WriteUpdate_loop_effect [of 0 columns vals "Write (''UPDATE '' @ table @ '' SET '') qb" qb']
    assms by (simp add: WriteUpdate_def)

lemma WriteInsert_effect:
  "args (WriteInsert table columns vals qb) = args qb @ vals \<and>
   paramIndex (WriteInsert table columns vals qb) = paramIndex qb + int (length vals)"
  by (simp add: WriteInsert_def Let_def split_beta)

lemma perform_effect:
  assumes "perform other c qb = Inr qb'"
  shows "args qb' = args qb @ added c \<and> paramIndex qb' = paramIndex qb + int (length (added c))"
proof (cases c)
  case (CWriteWithParams format as)
  with assms show ?thesis using WriteWithParams_effect [of other format as qb] by auto
next
  case (CWriteWhere condition as)
  with assms show ?thesis
    using WriteWithParams_effect [of other condition as "Write '' WHERE '' qb"]
    by (auto simp: WriteWhere_def)
next
  case (CWriteAnd condition as)
  with assms show ?thesis
    using WriteWithParams_effect [of other condition as "Write '' AND '' qb"]
    by (auto simp: WriteAnd_def)
next
  case (CWriteOr condition as)
  with assms show ?thesis
    using WriteWithParams_effect [of other condition as "Write '' OR '' qb"]
    by (auto simp: WriteOr_def)
next
  case (CWriteInsert table columns vals)
  with assms show ?thesis using WriteInsert_effect [of table columns vals qb] by auto
next
  case (CWriteUpdate table columns vals)
  with assms show ?thesis using WriteUpdate_effect [of table columns vals qb qb'] by simp
qed (use assms in \<open>auto simp: WriteSelect_def WriteFrom_def WriteOrderBy_def WriteLimit_def
      WriteOffset_def WriteDelete_def WriteReturning_def Let_def\<close>)

lemma performAll_effect:
  "performAll other cs qb = Inr qb' \<Longrightarrow>
     args qb' = args qb @ concat (map added cs) \<and>
     paramIndex qb' = paramIndex qb + int (length (concat (map added cs)))"
proof (induction cs arbitrary: qb)
  case Nil
  then show ?case by simp
next
  case (Cons c cs)
  from Cons.prems obtain qb1
    where c: "perform other c qb = Inr qb1" and r: "performAll other cs qb1 = Inr qb'"
    by (auto simp: andThen_def split: sum.splits)
  show ?case
    using perform_effect [OF c] Cons.IH [OF r] by simp
qed

lemma Reset_fresh: "Reset qb = NewQueryBuilder"
  by (cases qb) (simp add: Reset_def NewQueryBuilder_def)

text \<open>
  Claim C9. After any sequence of write and \<open>AddParam\<close> calls that runs to its end on a
  builder that was just reset (or just created: the two are the same builder), the
  number of accumulated arguments is \<open>paramIndex - 1\<close>; the arguments are the parameters
  of the calls in the order they were added, and \<open>Build\<close> returns them so; the next
  parameter, and each of the next parameters added in one call, gets the placeholder
  whose number is its position in the argument list; \<open>Reset\<close> gives back the fresh
  builder: empty text, no arguments, counter 1.
\<close>

theorem args_track_paramIndex:
  assumes "performAll other cs (Reset qb0) = Inr qb"
  shows "int (length (args qb)) = paramIndex qb - 1 \<and>
         args qb = concat (map added cs) \<and>
         snd (Build qb) = concat (map added cs) \<and>
         (\<forall>v. fst (AddParam v qb) = ''$'' @ itoa (int (length (concat (map added cs))) + 1) \<and>
              args (snd (AddParam v qb)) ! length (concat (map added cs)) = v) \<and>
         (\<forall>vs. fst (addParams vs qb) =
              map (\<lambda>i. ''$'' @ itoa (int (length (concat (map added cs))) + 1 + int i))
                [0..<length vs] \<and>
              args (snd (addParams vs qb)) = concat (map added cs) @ vs) \<and>
         Reset qb0 = NewQueryBuilder \<and>
         Build (Reset qb0) = ([], [])"
proof -
  have a: "args qb = concat (map added cs)"
    and p: "paramIndex qb = int (length (concat (map added cs))) + 1"
    using performAll_effect [OF assms] by (simp_all add: Reset_def)
  have "int (length (args qb)) = paramIndex qb - 1"
    using a p by simp
  moreover have "snd (Build qb) = concat (map added cs)"
    using a by (simp add: Build_def)
  moreover have "fst (AddParam v qb) = ''$'' @ itoa (int (length (concat (map added cs))) + 1) \<and>
      args (snd (AddParam v qb)) ! length (concat (map added cs)) = v" for v
    using a p by simp
  moreover have "fst (addParams vs qb) =
      map (\<lambda>i. ''$'' @ itoa (int (length (concat (map added cs))) + 1 + int i))
        [0..<length vs] \<and>
      args (snd (addParams vs qb)) = concat (map added cs) @ vs" for vs
    using a p by (simp add: addParams_fst)
  moreover have "Build (Reset qb0) = ([], [])"
    by (simp add: Build_def Reset_def)
  ultimately show ?thesis
    using a Reset_fresh [of qb0] by blast
qed

theorem args_track_paramIndex_witness:
  "performAll (\<lambda>format a. [])
       [CWriteUpdate ''t'' [''n''] [''J''], CWriteWhere ''id = %s'' [''7'']]
       (Reset NewQueryBuilder)
     = Inr \<lparr>query = ''UPDATE t SET n = $1 WHERE id = $2'', args = [''J'', ''7''],
            paramIndex = 3\<rparr>
   \<and> fst (AddParam ''x''
         \<lparr>query = ''UPDATE t SET n = $1 WHERE id = $2'', args = [''J'', ''7''],
          paramIndex = 3\<rparr>) = ''$3''"
proof -
  have run: "performAll (\<lambda>format a. [])
       [CWriteUpdate ''t'' [''n''] [''J''], CWriteWhere ''id = %s'' [''7'']]
       (Reset NewQueryBuilder)
     = Inr \<lparr>query = ''UPDATE t SET n = $1 WHERE id = $2'', args = [''J'', ''7''],
            paramIndex = 3\<rparr>"
    by code_simp
  show ?thesis
    using args_track_paramIndex [OF run] run by (simp add: itoa_def digits.simps digit_def)
qed

text \<open>
  Claim C5. On a fresh builder, \<open>WriteUpdate("t", ["n"], ["J"])\<close> followed by
  \<open>WriteWhere("id = %s", 7)\<close> builds the text \<open>UPDATE t SET n = $1 WHERE id = $2\<close> with
  the arguments \<open>["J", 7]\<close>. The numbering belongs to the builder: whatever clause is
  written, the counter moves on by the number of parameters the clause binds and never
  goes back, so the next placeholder continues after those of the earlier clauses.
\<close>

theorem update_then_where_numbering:
  "andThen (WriteUpdate ''t'' [''n''] [Some (VStr ''J'')] NewQueryBuilder)
     (\<lambda>qb. Inr (Build (WriteWhere other ''id = %s'' [Some (VInt 7)] qb)))
     = Inr (''UPDATE t SET n = $1 WHERE id = $2'', [Some (VStr ''J''), Some (VInt 7)])
   \<and> (\<forall>c qb qb'. perform other c qb = Inr qb' \<longrightarrow>
          paramIndex qb' = paramIndex qb + int (length (added c)) \<and>
          paramIndex qb \<le> paramIndex qb' \<and>
          (\<forall>v::iface. fst (AddParam v qb') =
             ''$'' @ itoa (paramIndex qb + int (length (added c)))))"
proof -
  have "andThen (WriteUpdate ''t'' [''n''] [Some (VStr ''J'')] NewQueryBuilder)
     (\<lambda>qb. Inr (Build (WriteWhere other ''id = %s'' [Some (VInt 7)] qb)))
     = Inr (''UPDATE t SET n = $1 WHERE id = $2'', [Some (VStr ''J''), Some (VInt 7)])"
    by (simp add: andThen_def WriteUpdate_def WriteUpdate_loop.simps WriteWhere_def
          WriteWithParams_def Sprintf_def Write_def AddParam_def NewQueryBuilder_def Build_def
          itoa_def digits.simps digit_def extraArgs_def)
  moreover have "paramIndex qb' = paramIndex qb + int (length (added c)) \<and>
          paramIndex qb \<le> paramIndex qb' \<and>
          (\<forall>v. fst (AddParam v qb') = ''$'' @ itoa (paramIndex qb + int (length (added c))))"
    if "perform other c qb = Inr qb'" for c :: "iface call" and qb qb'
    using perform_effect [OF that] by simp
  ultimately show ?thesis by blast
qed

theorem update_then_where_numbering_witness:
  "perform (\<lambda>format a. [])
       (CWriteInsert ''t'' [''n'', ''e''] [Some (VStr ''J''), Some (VStr ''j@x'')])
       (snd (AddParam (Some (VInt 7)) NewQueryBuilder))
     = Inr \<lparr>query = ''INSERT INTO t (n, e) VALUES ($2, $3)'',
            args = [Some (VInt 7), Some (VStr ''J''), Some (VStr ''j@x'')], paramIndex = 4\<rparr>
   \<and> fst (AddParam (Some (VBool True))
         \<lparr>query = ''INSERT INTO t (n, e) VALUES ($2, $3)'',
          args = [Some (VInt 7), Some (VStr ''J''), Some (VStr ''j@x'')], paramIndex = 4\<rparr>)
       = ''$4''"
proof -
  have run: "perform (\<lambda>format a. [])
       (CWriteInsert ''t'' [''n'', ''e''] [Some (VStr ''J''), Some (VStr ''j@x'')])
       (snd (AddParam (Some (VInt 7)) NewQueryBuilder))
     = Inr \<lparr>query = ''INSERT INTO t (n, e) VALUES ($2, $3)'',
            args = [Some (VInt 7), Some (VStr ''J''), Some (VStr ''j@x'')], paramIndex = 4\<rparr>"
    by code_simp
  have "fst (AddParam (Some (VBool True))
         \<lparr>query = ''INSERT INTO t (n, e) VALUES ($2, $3)'',
          args = [Some (VInt 7), Some (VStr ''J''), Some (VStr ''j@x'')], paramIndex = 4\<rparr>)
        = ''$'' @ itoa (paramIndex (snd (AddParam (Some (VInt 7))
                                       (NewQueryBuilder :: iface QueryBuilder)))
            + int (length (added (CWriteInsert ''t'' [''n'', ''e'']
                                    [Some (VStr ''J''), Some (VStr ''j@x'')]))))"
    using update_then_where_numbering [of "\<lambda>format a. []"] run by blast
  also have "\<dots> = ''$4''"
    by (simp add: NewQueryBuilder_def AddParam_def itoa_def digits.simps digit_def)
  finally show ?thesis using run by simp
qed

text \<open>
  Claim C6. On a fresh builder, \<open>WriteSelect("a", "b")\<close>, \<open>WriteFrom("t")\<close>,
  \<open>WriteWhere("a = %s", 1)\<close>, \<open>WriteAnd("b = %s", "x")\<close> build the text
  \<open>SELECT a, b FROM t WHERE a = $1 AND b = $2\<close> with the arguments \<open>[1, "x"]\<close>; with no
  column, \<open>WriteSelect\<close> writes \<open>SELECT *\<close>.
\<close>

theorem select_from_where_and:
  "Build (WriteAnd other ''b = %s'' [Some (VStr ''x'')]
            (WriteWhere other ''a = %s'' [Some (VInt 1)]
               (WriteFrom ''t'' (WriteSelect [''a'', ''b''] NewQueryBuilder))))
     = (''SELECT a, b FROM t WHERE a = $1 AND b = $2'', [Some (VInt 1), Some (VStr ''x'')])
   \<and> Build (WriteSelect [] (NewQueryBuilder :: iface QueryBuilder)) = (''SELECT *'', [])
   \<and> (\<forall>qb :: iface QueryBuilder. query (WriteSelect [] qb) = query qb @ ''SELECT *'')"
proof -
  have "Build (WriteAnd other ''b = %s'' [Some (VStr ''x'')]
            (WriteWhere other ''a = %s'' [Some (VInt 1)]
               (WriteFrom ''t'' (WriteSelect [''a'', ''b''] NewQueryBuilder))))
     = (''SELECT a, b FROM t WHERE a = $1 AND b = $2'', [Some (VInt 1), Some (VStr ''x'')])"
    by (simp add: WriteAnd_def WriteWhere_def WriteFrom_def WriteSelect_def
          WriteWithParams_def Sprintf_def Write_def AddParam_def NewQueryBuilder_def Build_def
          itoa_def digits.simps digit_def extraArgs_def)
  moreover have "Build (WriteSelect [] (NewQueryBuilder :: iface QueryBuilder)) = (''SELECT *'', [])"
    by (simp add: Build_def WriteSelect_def NewQueryBuilder_def Write_def)
  moreover have "query (WriteSelect [] qb) = query qb @ ''SELECT *''" for qb :: "iface QueryBuilder"
    by (simp add: WriteSelect_def)
  ultimately show ?thesis by blast
qed

section \<open>Properties of the reflection helpers\<close>

lemma ToLower_examples:
  "ToLower ''NoTag'' = ''notag''"
  "ToLower ''unexported'' = ''unexported''"
  "ToLower ''Id'' = ''id''"
  "ToLower ''ID'' = ''id''"
  "ToLower ''Name'' = ''name''"
  by code_simp+

lemma GetStructFields_loop_skip:
  "\<not> IsExported f \<or> Tag f = ''-'' \<Longrightarrow>
     GetStructFields_loop (xs @ f # ys) m = GetStructFields_loop (xs @ ys) m"
  by (induction xs arbitrary: m) (auto simp: Let_def)

lemma GetStructFields_loop_dom:
  "dom (GetStructFields_loop fs m) =
     dom m \<union> (\<lambda>f. if Tag f = [] then ToLower (Name f) else Tag f) `
       {f \<in> set fs. IsExported f \<and> Tag f \<noteq> ''-''}"
  by (induction fs arbitrary: m) (auto simp: Let_def)

lemma GetStructFields_loop_entry:
  "GetStructFields_loop fs m k = Some v \<Longrightarrow>
     m k = Some v \<or>
     (\<exists>f \<in> set fs. IsExported f \<and> Tag f \<noteq> ''-'' \<and>
        k = (if Tag f = [] then ToLower (Name f) else Tag f) \<and> v = Some (Val f))"
proof (induction fs arbitrary: m)
  case Nil
  then show ?case by simp
next
  case (Cons f fs)
  show ?case
  proof (cases "IsExported f \<and> Tag f \<noteq> ''-''")
    case False
    then have "GetStructFields_loop (f # fs) m = GetStructFields_loop fs m" by auto
    with Cons.prems have "GetStructFields_loop fs m k = Some v" by simp
    from Cons.IH [OF this] show ?thesis by auto
  next
    case True
    define c where "c = (if Tag f = [] then ToLower (Name f) else Tag f)"
    have "GetStructFields_loop (f # fs) m = GetStructFields_loop fs (m(c \<mapsto> Some (Val f)))"
      using True by (simp add: c_def Let_def CanInterface_def)
    with Cons.prems have "GetStructFields_loop fs (m(c \<mapsto> Some (Val f))) k = Some v" by simp
    from Cons.IH [OF this] show ?thesis
      using True by (auto simp: c_def split: if_splits)
  qed
qed

text \<open>
  Claim C7. For a struct or a pointer to a struct, every entry of the map that
  \<open>GetStructFields\<close> returns comes from a field that is exported and whose tag is not
  \<open>-\<close>, under the column name of that field and with its value; every such field has
  its column name in the map, bound to its own value when no other such field has the
  same column name; and a field that is not exported, or whose tag is \<open>-\<close>, leaves no
  trace: the map is the one of the struct without that field.
\<close>

theorem GetStructFields_entries:
  assumes "obj = OStruct fs \<or> obj = OPtr fs"
  shows "\<exists>m. GetStructFields obj = Inr m \<and>
     (\<forall>k v. m k = Some v \<longrightarrow>
        (\<exists>f \<in> set fs. IsExported f \<and> Tag f \<noteq> ''-'' \<and>
           k = (if Tag f = [] then ToLower (Name f) else Tag f) \<and> v = Some (Val f))) \<and>
     (\<forall>f \<in> set fs. IsExported f \<and> Tag f \<noteq> ''-'' \<longrightarrow>
        (if Tag f = [] then ToLower (Name f) else Tag f) \<in> dom m) \<and>
     (\<forall>f \<in> set fs. IsExported f \<and> Tag f \<noteq> ''-'' \<and>
        (\<forall>g \<in> set fs. IsExported g \<and> Tag g \<noteq> ''-'' \<and>
           (if Tag g = [] then ToLower (Name g) else Tag g) =
           (if Tag f = [] then ToLower (Name f) else Tag f) \<longrightarrow> g = f) \<longrightarrow>
        m (if Tag f = [] then ToLower (Name f) else Tag f) = Some (Some (Val f))) \<and>
     (\<forall>xs f ys. fs = xs @ f # ys \<and> (\<not> IsExported f \<or> Tag f = ''-'') \<longrightarrow>
        GetStructFields (OStruct (xs @ ys)) = Inr m)"
proof -
  define m where "m = GetStructFields_loop fs Map.empty"
  have r: "GetStructFields obj = Inr m"
    using assms by (auto simp: m_def)
  have e: "\<exists>f \<in> set fs. IsExported f \<and> Tag f \<noteq> ''-'' \<and>
           k = (if Tag f = [] then ToLower (Name f) else Tag f) \<and> v = Some (Val f)"
    if "m k = Some v" for k v
    using GetStructFields_loop_entry [of fs Map.empty k v] that by (simp add: m_def)
  have d: "(if Tag f = [] then ToLower (Name f) else Tag f) \<in> dom m"
    if "f \<in> set fs" "IsExported f \<and> Tag f \<noteq> ''-''" for f
    unfolding m_def GetStructFields_loop_dom using that by blast
  have s: "GetStructFields (OStruct (xs @ ys)) = Inr m"
    if "fs = xs @ f # ys \<and> (\<not> IsExported f \<or> Tag f = ''-'')" for xs f ys
    using GetStructFields_loop_skip [of f xs ys Map.empty] that by (simp add: m_def)
  have u: "m (if Tag f = [] then ToLower (Name f) else Tag f) = Some (Some (Val f))"
    if f: "f \<in> set fs" "IsExported f \<and> Tag f \<noteq> ''-''"
      and only: "\<forall>g \<in> set fs. IsExported g \<and> Tag g \<noteq> ''-'' \<and>
           (if Tag g = [] then ToLower (Name g) else Tag g) =
           (if Tag f = [] then ToLower (Name f) else Tag f) \<longrightarrow> g = f" for f
  proof -
    from d [OF f] obtain v
      where v: "m (if Tag f = [] then ToLower (Name f) else Tag f) = Some v"
      by blast
    from e [OF v] obtain g where "g \<in> set fs" "IsExported g \<and> Tag g \<noteq> ''-''"
      "(if Tag f = [] then ToLower (Name f) else Tag f) =
       (if Tag g = [] then ToLower (Name g) else Tag g)" "v = Some (Val g)"
      by blast
    with only have "v = Some (Val f)" by metis
    with v show ?thesis by simp
  qed
  show ?thesis
    using r e d u s by blast
qed

theorem GetStructFields_entries_witness:
  "\<exists>m. GetStructFields (OStruct TestStruct) = Inr m \<and>
       m ''ignored'' = None \<and> m ''unexported'' = None \<and> m ''-'' = None \<and>
       ''notag'' \<in> dom m \<and> ''name'' \<in> dom m \<and> ''email'' \<in> dom m"
proof -
  from GetStructFields_entries [of "OStruct TestStruct" TestStruct]
  obtain m where m: "GetStructFields (OStruct TestStruct) = Inr m"
    and e: "\<And>k v. m k = Some v \<Longrightarrow>
        (\<exists>f \<in> set TestStruct. IsExported f \<and> Tag f \<noteq> ''-'' \<and>
           k = (if Tag f = [] then ToLower (Name f) else Tag f) \<and> v = Some (Val f))"
    and d: "\<And>f. f \<in> set TestStruct \<Longrightarrow> IsExported f \<and> Tag f \<noteq> ''-'' \<Longrightarrow>
        (if Tag f = [] then ToLower (Name f) else Tag f) \<in> dom m"
    by blast
  have n1: "m ''ignored'' = None"
  proof (cases "m ''ignored''")
    case (Some v)
    from e [OF this] show ?thesis
      by (simp add: TestStruct_def IsExported_def isUpper_def ToLower_examples)
  qed simp
  have n2: "m ''unexported'' = None"
  proof (cases "m ''unexported''")
    case (Some v)
    from e [OF this] show ?thesis
      by (simp add: TestStruct_def IsExported_def isUpper_def ToLower_examples)
  qed simp
  have n3: "m ''-'' = None"
  proof (cases "m ''-''")
    case (Some v)
    from e [OF this] show ?thesis
      by (simp add: TestStruct_def IsExported_def isUpper_def ToLower_examples)
  qed simp
  have d1: "''notag'' \<in> dom m"
    using d [of "\<lparr>Name = ''NoTag'', Tag = [], Val = VStr ''No tag field''\<rparr>"]
    by (simp add: TestStruct_def IsExported_def isUpper_def ToLower_examples)
  have d2: "''name'' \<in> dom m"
    using d [of "\<lparr>Name = ''Name'', Tag = ''name'', Val = VStr ''Test Name''\<rparr>"]
    by (simp add: TestStruct_def IsExported_def isUpper_def)
  have d3: "''email'' \<in> dom m"
    using d [of "\<lparr>Name = ''Email'', Tag = ''email'', Val = VStr ''test@example.com''\<rparr>"]
    by (simp add: TestStruct_def IsExported_def isUpper_def)
  show ?thesis using m n1 n2 n3 d1 d2 d3 by blast
qed

lemma SetStructField_loop_error:
  "SetStructField_loop fs fieldName v = (fs', Some e) \<Longrightarrow> fs' = fs"
  by (induction fs arbitrary: fs') (auto split: if_splits option.splits prod.splits)

text \<open>
  Claim C10. Whenever \<open>SetStructField\<close> returns an error (the panic of \<open>reflect\<close> on a
  nil value included), the object after the call is the object before it.
\<close>

theorem SetStructField_error_unchanged:
  assumes "SetStructField obj fieldName v = (obj', Some e)"
  shows "obj' = obj"
  using assms
  by (cases obj) (auto split: prod.splits dest: SetStructField_loop_error)

theorem SetStructField_error_unchanged_witness:
  "SetStructField (OPtr TestStruct) ''nonexistent'' (Some (VStr ''value''))
     = (OPtr TestStruct, Some ErrFieldNotFound) \<and>
   SetStructField (OPtr TestStruct) ''name'' (Some (VBool True))
     = (OPtr TestStruct, Some ErrIncompatibleType) \<and>
   SetStructField (OPtr TestStruct) ''unexported'' (Some (VStr ''value''))
     = (OPtr TestStruct, Some ErrCannotSet)"
proof -
  have 1: "snd (SetStructField (OPtr TestStruct) ''nonexistent'' (Some (VStr ''value'')))
      = Some ErrFieldNotFound"
    by code_simp
  have 2: "snd (SetStructField (OPtr TestStruct) ''name'' (Some (VBool True)))
      = Some ErrIncompatibleType"
    by code_simp
  have 3: "snd (SetStructField (OPtr TestStruct) ''unexported'' (Some (VStr ''value'')))
      = Some ErrCannotSet"
    by code_simp
  have a: "SetStructField (OPtr TestStruct) ''nonexistent'' (Some (VStr ''value''))
      = (fst (SetStructField (OPtr TestStruct) ''nonexistent'' (Some (VStr ''value''))),
         Some ErrFieldNotFound)"
    using 1 by (metis prod.collapse)
  have b: "SetStructField (OPtr TestStruct) ''name'' (Some (VBool True))
      = (fst (SetStructField (OPtr TestStruct) ''name'' (Some (VBool True))),
         Some ErrIncompatibleType)"
    using 2 by (metis prod.collapse)
  have c: "SetStructField (OPtr TestStruct) ''unexported'' (Some (VStr ''value''))
      = (fst (SetStructField (OPtr TestStruct) ''unexported'' (Some (VStr ''value''))),
         Some ErrCannotSet)"
    using 3 by (metis prod.collapse)
  show ?thesis
    using SetStructField_error_unchanged [OF a] SetStructField_error_unchanged [OF b]
      SetStructField_error_unchanged [OF c] a b c
    by simp
qed

lemma Split_not_Nil: "Split s sep \<noteq> []"
  by (induction s) (auto split: list.splits)

lemma hd_Split: "hd (Split s sep) = takeWhile (\<lambda>c. c \<noteq> sep) s"
  by (induction s) (auto simp: Split_not_Nil split: list.splits)

lemma primaryTagged_find:
  "primaryTagged fs =
     map_option
       (\<lambda>f. (if takeWhile (\<lambda>c. c \<noteq> CHR '','') (Tag f) = [] then ToLower (Name f)
              else takeWhile (\<lambda>c. c \<noteq> CHR '','') (Tag f),
             if IsExported f then Some (Val f) else None))
       (find (\<lambda>f. Contains (Tag f) '',primary'') fs)"
  by (induction fs) (simp_all add: Let_def hd_Split CanInterface_def)

lemma namedId_find:
  "namedId fs =
     map_option
       (\<lambda>f. (if Tag f = [] \<or> Tag f = ''-'' then ''id'' else Tag f,
             if IsExported f then Some (Val f) else None))
       (find (\<lambda>f. ToLower (Name f) = ''id'') fs)"
  by (induction fs) (simp_all add: Let_def CanInterface_def)

text \<open>
  Claim C4, amended. For a struct or a pointer to a struct, \<open>GetPrimaryKeyField\<close> looks
  at the first field whose tag contains \<open>,primary\<close>, if there is one, whatever the other
  fields are called: it returns the first comma-delimited segment of the tag (the
  lower-cased identifier when the segment is empty) and the value of the field when the
  field is exported, nil when it is not. With no such field it looks at the first field
  whose identifier is \<open>id\<close> in any case and returns its value in the same way, under the
  column \<open>id\<close> when the tag is empty or \<open>-\<close> and under the tag when the tag has no
  option. With neither it fails with "chave primaria nao encontrada".
\<close>

theorem GetPrimaryKeyField_result:
  assumes "obj = OStruct fs \<or> obj = OPtr fs"
  shows
    "(\<forall>f. find (\<lambda>f. Contains (Tag f) '',primary'') fs = Some f \<longrightarrow>
        GetPrimaryKeyField obj =
          Inr (if takeWhile (\<lambda>c. c \<noteq> CHR '','') (Tag f) = [] then ToLower (Name f)
               else takeWhile (\<lambda>c. c \<noteq> CHR '','') (Tag f),
               if IsExported f then Some (Val f) else None)) \<and>
     (\<forall>f. find (\<lambda>f. Contains (Tag f) '',primary'') fs = None \<and>
          find (\<lambda>f. ToLower (Name f) = ''id'') fs = Some f \<longrightarrow>
        (\<exists>c. GetPrimaryKeyField obj = Inr (c, if IsExported f then Some (Val f) else None) \<and>
             (CHR '','' \<notin> set (Tag f) \<longrightarrow>
                c = (if Tag f = [] \<or> Tag f = ''-'' then ''id'' else Tag f)))) \<and>
     (find (\<lambda>f. Contains (Tag f) '',primary'') fs = None \<and>
      find (\<lambda>f. ToLower (Name f) = ''id'') fs = None \<longrightarrow>
        GetPrimaryKeyField obj = Inl ErrNoPrimaryKey)"
proof -
  have g: "GetPrimaryKeyField obj = GetPrimaryKeyField_struct fs"
    using assms by auto
  show ?thesis
    unfolding g GetPrimaryKeyField_struct_def primaryTagged_find namedId_find
    by simp
qed

theorem GetPrimaryKeyField_result_witness:
  "GetPrimaryKeyField (OStruct TestStruct) = Inr (''id'', Some (VInt 1)) \<and>
   GetPrimaryKeyField (OPtr [\<lparr>Name = ''Name'', Tag = ''name'', Val = VStr ''No Key''\<rparr>])
     = Inl ErrNoPrimaryKey \<and>
   GetPrimaryKeyField (OStruct [\<lparr>Name = ''Id'', Tag = [], Val = VInt64 9\<rparr>])
     = Inr (''id'', Some (VInt64 9))"
proof -
  have 1: "GetPrimaryKeyField (OStruct TestStruct) = Inr (''id'', Some (VInt 1))"
    using GetPrimaryKeyField_result [of "OStruct TestStruct" TestStruct]
    by (simp add: TestStruct_def IsExported_def isUpper_def)
  have 2: "GetPrimaryKeyField (OPtr [\<lparr>Name = ''Name'', Tag = ''name'', Val = VStr ''No Key''\<rparr>])
     = Inl ErrNoPrimaryKey"
    using GetPrimaryKeyField_result
      [of "OPtr [\<lparr>Name = ''Name'', Tag = ''name'', Val = VStr ''No Key''\<rparr>]"
          "[\<lparr>Name = ''Name'', Tag = ''name'', Val = VStr ''No Key''\<rparr>]"]
    by (simp add: ToLower_examples)
  have 3: "GetPrimaryKeyField (OStruct [\<lparr>Name = ''Id'', Tag = [], Val = VInt64 9\<rparr>])
     = Inr (''id'', Some (VInt64 9))"
    using GetPrimaryKeyField_result
      [of "OStruct [\<lparr>Name = ''Id'', Tag = [], Val = VInt64 9\<rparr>]"
          "[\<lparr>Name = ''Id'', Tag = [], Val = VInt64 9\<rparr>]"]
    by (simp add: ToLower_examples IsExported_def isUpper_def)
  show ?thesis using 1 2 3 by simp
qed

text \<open>
  Claim C4 as stated fails on a struct whose primary key field is not exported: the
  current value of the field is 42 and the value returned is nil.
\<close>

theorem GetPrimaryKeyField_unexported_counterexample:
  "GetPrimaryKeyField (OStruct [\<lparr>Name = ''id'', Tag = ''id,primary'', Val = VInt 42\<rparr>])
     = Inr (''id'', None) \<and>
   GetPrimaryKeyField (OStruct [\<lparr>Name = ''id'', Tag = ''id,primary'', Val = VInt 42\<rparr>])
     \<noteq> Inr (''id'', Some (VInt 42))"
  by (simp add: GetPrimaryKeyField_struct_def CanInterface_def IsExported_def isUpper_def)

text \<open>
  Claim C2 on the code. \<open>TestGetStructFields\<close> expects the key \<open>id\<close> for the field
  tagged \<open>id,primary\<close>. \<open>GetStructFields\<close> uses the whole tag as the key: the map
  has no key \<open>id\<close> and binds the value to \<open>id,primary\<close>.
\<close>

theorem GetStructFields_keeps_tag_options:
  "\<exists>m. GetStructFields (OStruct TestStruct) = Inr m \<and>
       m ''id'' = None \<and>
       m ''id,primary'' = Some (Some (VInt 1)) \<and>
       m ''name'' = Some (Some (VStr ''Test Name'')) \<and>
       m ''notag'' = Some (Some (VStr ''No tag field''))"
  by (simp add: TestStruct_def IsExported_def isUpper_def CanInterface_def ToLower_examples)

text \<open>
  Claim C3 on the code. For the field tagged \<open>id,primary\<close>, whose column name is
  \<open>id\<close>, \<open>SetStructField\<close> with the name \<open>id\<close> compares the name with the whole tag,
  finds no field and leaves the struct as it was; the field is found under the name
  \<open>id,primary\<close>.
\<close>

theorem SetStructField_misses_tag_with_options:
  "SetStructField (OPtr TestStruct) ''id'' (Some (VInt 5))
     = (OPtr TestStruct, Some ErrFieldNotFound) \<and>
   SetStructField (OPtr TestStruct) ''id,primary'' (Some (VInt 5))
     = (OPtr (TestStruct[0 := \<lparr>Name = ''ID'', Tag = ''id,primary'', Val = VInt 5\<rparr>]), None)"
  by (simp add: TestStruct_def ToLower_examples CanSet_def IsExported_def isUpper_def)

section \<open>Properties of the PostgreSQL operations\<close>

lemma GetStructFields_loop_no_empty_key:
  "[] \<notin> dom m \<Longrightarrow> [] \<notin> dom (GetStructFields_loop fs m)"
  by (induction fs arbitrary: m)
    (auto simp: Let_def IsExported_def ToLower_def split: list.splits if_splits)

lemma GetStructFields_no_empty_key:
  "GetStructFields obj = Inr fm \<Longrightarrow> [] \<notin> dom fm"
  using GetStructFields_loop_no_empty_key [of Map.empty]
  by (cases obj) auto

lemma Create_filter_value:
  "set order \<subseteq> dom fm \<Longrightarrow>
     Create_filter order fm pk (Some x) =
       Inr (filter (\<lambda>c. \<not> (c = pk \<and> IsZero x)) order,
            map (\<lambda>c. the (fm c)) (filter (\<lambda>c. \<not> (c = pk \<and> IsZero x)) order))"
  by (induction order) (auto simp: Let_def)

lemma Create_filter_no_key:
  "set order \<subseteq> dom fm \<Longrightarrow> pk \<notin> set order \<Longrightarrow>
     Create_filter order fm pk v = Inr (order, map (\<lambda>c. the (fm c)) order)"
  by (induction order) (auto simp: Let_def)

lemma WriteInsert_fresh:
  "Build (WriteInsert table columns vals NewQueryBuilder) =
     (''INSERT INTO '' @ table @ '' ('' @ Join columns '', '' @ '') VALUES ('' @
        Join (map (\<lambda>i. ''$'' @ itoa (1 + int i)) [0..<length vals]) '', '' @ '')'',
      vals)"
proof -
  define qb3 :: "'a QueryBuilder" where
    "qb3 = Write '') VALUES ('' (Write (Join columns '', '')
             (Write (''INSERT INTO '' @ table @ '' ('') NewQueryBuilder))"
  have p: "paramIndex qb3 = 1" and a: "args qb3 = []"
    and q: "query qb3 = ''INSERT INTO '' @ table @ '' ('' @ Join columns '', '' @ '') VALUES (''"
    by (simp_all add: qb3_def NewQueryBuilder_def)
  have "WriteInsert table columns vals NewQueryBuilder =
      Write '')'' (Write (Join (fst (addParams vals qb3)) '', '') (snd (addParams vals qb3)))"
    by (simp add: WriteInsert_def qb3_def Let_def split_beta)
  then show ?thesis
    by (simp add: Build_def addParams_fst p a q)
qed

lemma WriteInsert_returning_fresh:
  "Build (WriteReturning [pk] (WriteInsert table columns vals NewQueryBuilder)) =
     (''INSERT INTO '' @ table @ '' ('' @ Join columns '', '' @ '') VALUES ('' @
        Join (map (\<lambda>i. ''$'' @ itoa (1 + int i)) [0..<length vals]) '', '' @ '')'' @
        '' RETURNING '' @ pk,
      vals)"
  using WriteInsert_fresh [of table columns vals]
  by (simp add: Build_def WriteReturning_def)

text \<open>
  Claim C1, amended. \<open>Create\<close> on an open connection, for a record whose fields can be
  read, with the map of columns visited in any order. When the record implements
  \<open>ModelWithPrimaryKey\<close> with a non-empty \<open>PrimaryKey()\<close> and a \<open>PrimaryKeyValue()\<close>
  that is not nil: the INSERT lists the columns of the map, all of them when the value
  is not the zero value of its type, all but the one equal to \<open>PrimaryKey()\<close> when it
  is; so when \<open>PrimaryKey()\<close> is a column of the map, it is listed exactly when the value
  is not zero; the statement ends with \<open>RETURNING\<close> and the primary key whether the
  value is zero or not; when the statement succeeds, the generated value goes to
  \<open>SetStructField\<close> for the primary key, whose object is the object after the call and
  whose error is the error returned; when the statement fails, the object is unchanged.
  When the record does not implement \<open>ModelWithPrimaryKey\<close>, or its \<open>PrimaryKey()\<close> is
  empty, every column of the map is listed, no \<open>RETURNING\<close> is asked for, the statement
  is executed without reading a row and the object is unchanged.
\<close>

theorem Create_primary_key_handling:
  assumes fm: "GetStructFields (Obj model) = Inr fm" and order: "set order = dom fm"
  shows
    "(\<forall>pk x. PK model = Some (pk, Some x) \<and> pk \<noteq> [] \<longrightarrow>
        (\<exists>columns text.
           columns = (if IsZero x then filter (\<lambda>c. c \<noteq> pk) order else order) \<and>
           set columns = (if IsZero x then dom fm - {pk} else dom fm) \<and>
           (pk \<in> dom fm \<longrightarrow> (pk \<in> set columns) = (\<not> IsZero x)) \<and>
           text = ''INSERT INTO '' @ TableName model @ '' ('' @ Join columns '', '' @
                    '') VALUES ('' @
                    Join (map (\<lambda>i. ''$'' @ itoa (1 + int i)) [0..<length columns]) '', '' @
                    '')'' @ '' RETURNING '' @ pk \<and>
           Sent (Create (Some conn) model order) =
             Some (QueryRowStmt text (map (\<lambda>c. the (fm c)) columns)) \<and>
           (\<forall>generatedID.
              QueryRowScan conn text (map (\<lambda>c. the (fm c)) columns) = Inr generatedID \<longrightarrow>
                ObjAfter (Create (Some conn) model order) =
                  fst (SetStructField (Obj model) pk (Some (VInt generatedID))) \<and>
                Err (Create (Some conn) model order) =
                  map_option ErrSetPrimaryKey
                    (snd (SetStructField (Obj model) pk (Some (VInt generatedID))))) \<and>
           (\<forall>e. QueryRowScan conn text (map (\<lambda>c. the (fm c)) columns) = Inl e \<longrightarrow>
                ObjAfter (Create (Some conn) model order) = Obj model \<and>
                Err (Create (Some conn) model order) = Some (Create_dbError e)))) \<and>
     (PK model = None \<or> (\<exists>v. PK model = Some ([], v)) \<longrightarrow>
        (\<exists>text.
           text = ''INSERT INTO '' @ TableName model @ '' ('' @ Join order '', '' @
                    '') VALUES ('' @
                    Join (map (\<lambda>i. ''$'' @ itoa (1 + int i)) [0..<length order]) '', '' @
                    '')'' \<and>
           Sent (Create (Some conn) model order) =
             Some (ExecStmt text (map (\<lambda>c. the (fm c)) order)) \<and>
           ObjAfter (Create (Some conn) model order) = Obj model \<and>
           (\<forall>res. Exec conn text (map (\<lambda>c. the (fm c)) order) = Inr res \<longrightarrow>
                Err (Create (Some conn) model order) = None) \<and>
           (\<forall>e. Exec conn text (map (\<lambda>c. the (fm c)) order) = Inl e \<longrightarrow>
                Err (Create (Some conn) model order) = Some (Create_dbError e))))"
proof -
  have sub: "set order \<subseteq> dom fm" using order by simp
  have withPK: "\<exists>columns text.
           columns = (if IsZero x then filter (\<lambda>c. c \<noteq> pk) order else order) \<and>
           set columns = (if IsZero x then dom fm - {pk} else dom fm) \<and>
           (pk \<in> dom fm \<longrightarrow> (pk \<in> set columns) = (\<not> IsZero x)) \<and>
           text = ''INSERT INTO '' @ TableName model @ '' ('' @ Join columns '', '' @
                    '') VALUES ('' @
                    Join (map (\<lambda>i. ''$'' @ itoa (1 + int i)) [0..<length columns]) '', '' @
                    '')'' @ '' RETURNING '' @ pk \<and>
           Sent (Create (Some conn) model order) =
             Some (QueryRowStmt text (map (\<lambda>c. the (fm c)) columns)) \<and>
           (\<forall>generatedID.
              QueryRowScan conn text (map (\<lambda>c. the (fm c)) columns) = Inr generatedID \<longrightarrow>
                ObjAfter (Create (Some conn) model order) =
                  fst (SetStructField (Obj model) pk (Some (VInt generatedID))) \<and>
                Err (Create (Some conn) model order) =
                  map_option ErrSetPrimaryKey
                    (snd (SetStructField (Obj model) pk (Some (VInt generatedID))))) \<and>
           (\<forall>e. QueryRowScan conn text (map (\<lambda>c. the (fm c)) columns) = Inl e \<longrightarrow>
                ObjAfter (Create (Some conn) model order) = Obj model \<and>
                Err (Create (Some conn) model order) = Some (Create_dbError e))"
    if pk: "PK model = Some (pk, Some x)" "pk \<noteq> []" for pk x
  proof -
    define columns where "columns = filter (\<lambda>c. \<not> (c = pk \<and> IsZero x)) order"
    have c: "columns = (if IsZero x then filter (\<lambda>c. c \<noteq> pk) order else order)"
      by (simp add: columns_def)
    have f: "Create_filter order fm pk (Some x) = Inr (columns, map (\<lambda>c. the (fm c)) columns)"
      unfolding columns_def by (rule Create_filter_value [OF sub])
    have s: "set columns = (if IsZero x then dom fm - {pk} else dom fm)"
      using order by (auto simp: columns_def)
    have m: "pk \<in> dom fm \<longrightarrow> (pk \<in> set columns) = (\<not> IsZero x)"
      using s by auto
    have r: "Sent (Create (Some conn) model order) =
             Some (QueryRowStmt
               (''INSERT INTO '' @ TableName model @ '' ('' @ Join columns '', '' @
                  '') VALUES ('' @
                  Join (map (\<lambda>i. ''$'' @ itoa (1 + int i)) [0..<length columns]) '', '' @
                  '')'' @ '' RETURNING '' @ pk)
               (map (\<lambda>c. the (fm c)) columns)) \<and>
           (\<forall>generatedID.
              QueryRowScan conn
                (''INSERT INTO '' @ TableName model @ '' ('' @ Join columns '', '' @
                  '') VALUES ('' @
                  Join (map (\<lambda>i. ''$'' @ itoa (1 + int i)) [0..<length columns]) '', '' @
                  '')'' @ '' RETURNING '' @ pk)
                (map (\<lambda>c. the (fm c)) columns) = Inr generatedID \<longrightarrow>
                ObjAfter (Create (Some conn) model order) =
                  fst (SetStructField (Obj model) pk (Some (VInt generatedID))) \<and>
                Err (Create (Some conn) model order) =
                  map_option ErrSetPrimaryKey
                    (snd (SetStructField (Obj model) pk (Some (VInt generatedID))))) \<and>
           (\<forall>e. QueryRowScan conn
                (''INSERT INTO '' @ TableName model @ '' ('' @ Join columns '', '' @
                  '') VALUES ('' @
                  Join (map (\<lambda>i. ''$'' @ itoa (1 + int i)) [0..<length columns]) '', '' @
                  '')'' @ '' RETURNING '' @ pk)
                (map (\<lambda>c. the (fm c)) columns) = Inl e \<longrightarrow>
                ObjAfter (Create (Some conn) model order) = Obj model \<and>
                Err (Create (Some conn) model order) = Some (Create_dbError e))"
      by (simp add: Create_def fm pk f WriteInsert_returning_fresh Let_def split_beta
            split: sum.splits)
    show ?thesis
      using c s m r by blast
  qed
  have noPK: "\<exists>text.
           text = ''INSERT INTO '' @ TableName model @ '' ('' @ Join order '', '' @
                    '') VALUES ('' @
                    Join (map (\<lambda>i. ''$'' @ itoa (1 + int i)) [0..<length order]) '', '' @
                    '')'' \<and>
           Sent (Create (Some conn) model order) =
             Some (ExecStmt text (map (\<lambda>c. the (fm c)) order)) \<and>
           ObjAfter (Create (Some conn) model order) = Obj model \<and>
           (\<forall>res. Exec conn text (map (\<lambda>c. the (fm c)) order) = Inr res \<longrightarrow>
                Err (Create (Some conn) model order) = None) \<and>
           (\<forall>e. Exec conn text (map (\<lambda>c. the (fm c)) order) = Inl e \<longrightarrow>
                Err (Create (Some conn) model order) = Some (Create_dbError e))"
    if pk: "PK model = None \<or> (\<exists>v. PK model = Some ([], v))"
  proof -
    have "[] \<notin> set order"
      using GetStructFields_no_empty_key [OF fm] order by simp
    then have f: "Create_filter order fm [] v = Inr (order, map (\<lambda>c. the (fm c)) order)" for v
      by (rule Create_filter_no_key [OF sub])
    from pk show ?thesis
    proof
      assume "PK model = None"
      then show ?thesis
        by (simp add: Create_def fm f WriteInsert_fresh Let_def split: sum.splits)
    next
      assume "\<exists>v. PK model = Some ([], v)"
      then obtain v where "PK model = Some ([], v)" by blast
      then show ?thesis
        by (simp add: Create_def fm f WriteInsert_fresh Let_def split: sum.splits)
    qed
  qed
  show ?thesis
    using withPK noPK by blast
qed

lemma User_fields_dom:
  "dom (GetStructFields_loop (User i) Map.empty) = {''id'', ''name''}"
  by (auto simp: GetStructFields_loop_dom User_def IsExported_def isUpper_def)

lemma User_fields_values:
  "GetStructFields_loop (User i) Map.empty ''name'' = Some (Some (VStr ''J''))"
  "GetStructFields_loop (User i) Map.empty ''id'' = Some (Some (VInt i))"
  by (simp_all add: User_def IsExported_def isUpper_def CanInterface_def)

theorem Create_primary_key_handling_witness:
  "Sent (Create (Some (Answering 99 1)) (UserModel 0) [''name'', ''id'']) =
     Some (QueryRowStmt ''INSERT INTO users (name) VALUES ($1) RETURNING id''
             [Some (VStr ''J'')]) \<and>
   ObjAfter (Create (Some (Answering 99 1)) (UserModel 0) [''name'', ''id'']) = OPtr (User 99) \<and>
   Err (Create (Some (Answering 99 1)) (UserModel 0) [''name'', ''id'']) = None \<and>
   Sent (Create (Some (Answering 99 1)) ((UserModel 0)\<lparr>PK := None\<rparr>) [''name'', ''id'']) =
     Some (ExecStmt ''INSERT INTO users (name, id) VALUES ($1, $2)''
             [Some (VStr ''J''), Some (VInt 0)]) \<and>
   ObjAfter (Create (Some (Answering 99 1)) ((UserModel 0)\<lparr>PK := None\<rparr>) [''name'', ''id''])
     = OPtr (User 0) \<and>
   Err (Create (Some (Answering 99 1)) ((UserModel 0)\<lparr>PK := None\<rparr>) [''name'', ''id''])
     = None"
proof -
  have fm: "GetStructFields (Obj (UserModel 0)) = Inr (GetStructFields_loop (User 0) Map.empty)"
    by (simp add: UserModel_def)
  have fm': "GetStructFields (Obj ((UserModel 0)\<lparr>PK := None\<rparr>)) =
      Inr (GetStructFields_loop (User 0) Map.empty)"
    by (simp add: UserModel_def)
  have order: "set [''name'', ''id''] = dom (GetStructFields_loop (User 0) Map.empty)"
    by (auto simp: User_fields_dom)
  have pk: "PK (UserModel 0) = Some (''id'', Some (VInt 0)) \<and> ''id'' \<noteq> []"
    by (simp add: UserModel_def)
  have scan: "QueryRowScan (Answering 99 1) sql params = Inr 99" for sql params
    by (simp add: Answering_def)
  have exec: "Exec (Answering 99 1) sql params = Inr (Inr 1)" for sql params
    by (simp add: Answering_def)
  have set: "SetStructField_loop (User 0) ''id'' (Some (VInt 99)) = (User 99, None)"
    by (simp add: User_def CanSet_def IsExported_def isUpper_def)
  have num: "itoa 1 = ''1''" "itoa 2 = ''2''"
    by (simp_all add: itoa_def digits.simps digit_def)
  have a: "Sent (Create (Some (Answering 99 1)) (UserModel 0) [''name'', ''id'']) =
     Some (QueryRowStmt ''INSERT INTO users (name) VALUES ($1) RETURNING id''
             [Some (VStr ''J'')]) \<and>
   ObjAfter (Create (Some (Answering 99 1)) (UserModel 0) [''name'', ''id'']) = OPtr (User 99) \<and>
   Err (Create (Some (Answering 99 1)) (UserModel 0) [''name'', ''id'']) = None"
    using Create_primary_key_handling [OF fm order, of "Answering 99 1"] pk
    by (simp add: scan set User_fields_values UserModel_def num)
  have b: "Sent (Create (Some (Answering 99 1)) ((UserModel 0)\<lparr>PK := None\<rparr>)
                   [''name'', ''id'']) =
     Some (ExecStmt ''INSERT INTO users (name, id) VALUES ($1, $2)''
             [Some (VStr ''J''), Some (VInt 0)]) \<and>
   ObjAfter (Create (Some (Answering 99 1)) ((UserModel 0)\<lparr>PK := None\<rparr>) [''name'', ''id''])
     = OPtr (User 0) \<and>
   Err (Create (Some (Answering 99 1)) ((UserModel 0)\<lparr>PK := None\<rparr>) [''name'', ''id''])
     = None"
    using Create_primary_key_handling [OF fm' order, of "Answering 99 1"]
    by (simp add: exec User_fields_values UserModel_def num)
  show ?thesis
    using a b by simp
qed

text \<open>
  Claim C1 as stated fails for a record whose primary key is 5: the column \<open>id\<close> is
  listed, and the statement still ends with \<open>RETURNING id\<close> and is run as a query whose
  row is scanned; what the connection returns is written into the record, as the
  connection that returns 99 shows.
\<close>

theorem Create_returning_counterexample:
  "Sent (Create (Some (Answering 5 1)) (UserModel 5) [''id'', ''name'']) =
     Some (QueryRowStmt ''INSERT INTO users (id, name) VALUES ($1, $2) RETURNING id''
             [Some (VInt 5), Some (VStr ''J'')]) \<and>
   Err (Create (Some (Answering 5 1)) (UserModel 5) [''id'', ''name'']) = None \<and>
   ObjAfter (Create (Some (Answering 99 1)) (UserModel 5) [''id'', ''name'']) = OPtr (User 99)"
  by code_simp

lemma checkExec_no_rows:
  "Exec conn sql params = Inr (Inr 0) \<Longrightarrow>
     checkExec conn sql params failed noRows = Some noRows"
  by (simp add: checkExec_def)

lemma Update_collect_length:
  "length (fst (Update_collect order fm)) = length (snd (Update_collect order fm))"
  by (induction order) (auto simp: split_beta split: option.splits)

lemma WriteUpdate_loop_no_panic:
  "length columns \<le> length vals \<Longrightarrow> \<exists>qb'. WriteUpdate_loop i columns vals qb = Inr qb'"
proof (induction i columns vals qb rule: WriteUpdate_loop.induct)
  case (1 i columns vals qb)
  show ?case
  proof (cases "i < length columns")
    case False
    then show ?thesis by (simp add: WriteUpdate_loop.simps)
  next
    case True
    with "1.prems" have inb: "i < length vals" by simp
    define qb1 where "qb1 = (if i > 0 then Write '', '' qb else qb)"
    have "\<exists>qb'. WriteUpdate_loop (i + 1) columns vals
            (Write (columns ! i @ '' = '' @ fst (AddParam (vals ! i) qb1))
               (snd (AddParam (vals ! i) qb1))) = Inr qb'"
      using "1.IH" [OF True refl inb refl prod.collapse "1.prems"] by (simp add: qb1_def)
    then show ?thesis
      using True inb
      by (subst WriteUpdate_loop.simps) (simp add: qb1_def Let_def split_beta)
  qed
qed

text \<open>
  Claim C8. On an open connection \<open>Update\<close>, once the fields of the record are read, and
  \<open>Delete\<close> send their statement; whenever the connection has executed the statement
  without error and counted zero affected rows, the operation returns "no records were
  updated", respectively "no records were deleted".
\<close>

theorem no_rows_affected_is_an_error:
  "(\<forall>fm. GetStructFields (PObj model) = Inr fm \<longrightarrow>
      (\<exists>sql params.
         Sent (Update other (Some conn) model order) = Some (ExecStmt sql params) \<and>
         (Exec conn sql params = Inr (Inr 0) \<longrightarrow>
            Err (Update other (Some conn) model order) = Some ErrNoRecordsUpdated))) \<and>
   (\<exists>sql params.
      Sent (Delete other (Some conn) model) = Some (ExecStmt sql params) \<and>
      (Exec conn sql params = Inr (Inr 0) \<longrightarrow>
         Err (Delete other (Some conn) model) = Some ErrNoRecordsDeleted))"
proof -
  have u: "\<exists>sql params.
         Sent (Update other (Some conn) model order) = Some (ExecStmt sql params) \<and>
         (Exec conn sql params = Inr (Inr 0) \<longrightarrow>
            Err (Update other (Some conn) model order) = Some ErrNoRecordsUpdated)"
    if fm: "GetStructFields (PObj model) = Inr fm" for fm
  proof -
    define cv where "cv = Update_collect order (fm(PrimaryKey model := None))"
    have "length (fst cv) \<le> length (snd cv)"
      by (simp add: cv_def Update_collect_length)
    then obtain qb1
      where w: "WriteUpdate (PTableName model) (fst cv) (snd cv) NewQueryBuilder = Inr qb1"
      unfolding WriteUpdate_def using WriteUpdate_loop_no_panic by blast
    show ?thesis
      by (simp add: Update_def fm cv_def [symmetric] split_beta Let_def andThen_def w
            checkExec_no_rows)
  qed
  have d: "\<exists>sql params.
      Sent (Delete other (Some conn) model) = Some (ExecStmt sql params) \<and>
      (Exec conn sql params = Inr (Inr 0) \<longrightarrow>
         Err (Delete other (Some conn) model) = Some ErrNoRecordsDeleted)"
    by (simp add: Delete_def split_beta Let_def checkExec_no_rows)
  show ?thesis using u d by blast
qed

theorem no_rows_affected_is_an_error_witness:
  "Sent (Update (\<lambda>format a. []) (Some (Answering 99 0)) (UserRow 5) [''name'', ''id'']) =
     Some (ExecStmt ''UPDATE users SET name = $1 WHERE id = $2''
             [Some (VStr ''J''), Some (VInt 5)]) \<and>
   Err (Update (\<lambda>format a. []) (Some (Answering 99 0)) (UserRow 5) [''name'', ''id'']) =
     Some ErrNoRecordsUpdated \<and>
   Sent (Delete (\<lambda>format a. []) (Some (Answering 99 0)) (UserRow 5)) =
     Some (ExecStmt ''DELETE FROM users WHERE id = $1'' [Some (VInt 5)]) \<and>
   Err (Delete (\<lambda>format a. []) (Some (Answering 99 0)) (UserRow 5)) =
     Some ErrNoRecordsDeleted"
proof -
  have u: "Sent (Update (\<lambda>format a. []) (Some (Answering 99 0)) (UserRow 5)
                   [''name'', ''id'']) =
     Some (ExecStmt ''UPDATE users SET name = $1 WHERE id = $2''
             [Some (VStr ''J''), Some (VInt 5)])"
    by code_simp
  have d: "Sent (Delete (\<lambda>format a. []) (Some (Answering 99 0)) (UserRow 5)) =
     Some (ExecStmt ''DELETE FROM users WHERE id = $1'' [Some (VInt 5)])"
    by code_simp
  have z: "Exec (Answering 99 0) sql params = Inr (Inr 0)" for sql params
    by (simp add: Answering_def)
  have fm: "GetStructFields (PObj (UserRow 5)) = Inr (GetStructFields_loop (User 5) Map.empty)"
    by (simp add: UserRow_def)
  from no_rows_affected_is_an_error
    [of "UserRow 5" "\<lambda>format a. []" "Answering 99 0" "[''name'', ''id'']"] fm
  have "Err (Update (\<lambda>format a. []) (Some (Answering 99 0)) (UserRow 5) [''name'', ''id''])
          = Some ErrNoRecordsUpdated"
    and "Err (Delete (\<lambda>format a. []) (Some (Answering 99 0)) (UserRow 5))
          = Some ErrNoRecordsDeleted"
    using z by auto
  then show ?thesis using u d by simp
qed

end
